theory Spec2Isabelle
  imports Complex_Main
begin

section \<open>Python values, exceptions and the observable trace\<close>

text \<open>
  The two scripts talk to a PostgreSQL server through psycopg2, print a report and (one of
  them) write a JSON file. The exceptions that matter are the ones the calls of the source
  can raise; each is a value here, and a function that can raise returns \<open>error + 'a\<close>.

  Numbers: SQL \<open>COUNT\<close> results are Python \<open>int\<close> (HOL \<open>int\<close>); \<open>SUM\<close>/\<open>AVG\<close>
  results are \<open>Decimal\<close> and the derived ratios are \<open>float\<close> or \<open>Decimal\<close>. Both are
  modelled by exact \<open>real\<close> arithmetic: rounding is outside the model.
\<close>

datatype error =
    ZeroDivisionError
  | TypeError
  | OperationalError
  | ProgrammingError
  | InterfaceError
  | OSError

text \<open>Python's \<open>a / b\<close> on numbers: raises on a zero divisor.\<close>

definition py_truediv :: "real \<Rightarrow> real \<Rightarrow> error + real" where
  "py_truediv a b = (if b = 0 then Inl ZeroDivisionError else Inr (a / b))"

text \<open>The SQL statements of the two scripts, by the metric they compute.\<close>

datatype query =
    Q_customer_metrics
  | Q_geographic
  | Q_table_count string
  | Q_collaborative
  | Q_high_value
  | Q_cross_region

text \<open>
  Printed lines. A \<open>print\<close> of fixed text that is always reached (headings, separators,
  the front-end figures and the recommendations of validate\_customer\_profiling.py) is
  left out of the trace; a line that shows a computed value, a diagnostic, or a line
  printed under a condition is kept, carrying the values before formatting.
\<close>

datatype line =
    L_customer_metrics int int real real
  | L_avg_lifetime_value real
  | L_orders_per_customer real
  | L_city nat string int real real
  | L_geo_summary nat int real
  | L_real_city nat string real int
  | L_results_saved
  | L_validation_failed error
  | L_connection_failed error
  | L_cannot_proceed
  | L_table string int
  | L_table_failed string error
  | L_orders_warning int
  | L_collaborative int int int int int real
  | L_derived real real
  | L_no_results
  | L_query_failed error
  | L_high_value int
  | L_high_value_failed error
  | L_cross_region int
  | L_cross_region_failed error
  | L_summary_passed int int real real
  | L_summary_failed
  | L_summary_counts int int
  | L_advice_campaigns
  | L_advice_bundles
  | L_advice_regions
  | L_completed

text \<open>
  What a run does to the outside world, in order: \<open>Connect\<close> is a successful
  \<open>psycopg2.connect\<close>, \<open>Execute q\<close> a \<open>cursor.execute\<close> sent on the open connection
  (whether or not the server then reports an error), \<open>ConnClose\<close> is \<open>conn.close()\<close>.
\<close>

datatype event =
    Connect
  | Cursor
  | Execute query
  | CursorClose
  | ConnClose
  | Print line
  | JsonDump

section \<open>validate\_customer\_profiling.py\<close>

text \<open>
  The environment of one run of the script: the outcome of every call that leaves the
  process. \<open>None\<close> for a connect or cursor call means it succeeded; a fetch is the
  outcome of \<open>cursor.execute\<close> followed by \<open>fetchone\<close>/\<open>fetchall\<close>.
\<close>

type_synonym metrics_row = "int \<times> int \<times> real \<times> real"
type_synonym city_row = "string \<times> int \<times> int \<times> real"

record profiling_env =
  connect_metrics :: "error option"
  cursor_metrics :: "error option"
  fetch_metrics :: "error + metrics_row option"
  connect_geo :: "error option"
  cursor_geo :: "error option"
  fetch_geo :: "error + city_row list"
  json_dump :: "error option"

text \<open>The customer count of a city row (\<open>row[1]\<close>).\<close>

definition customer_count :: "city_row \<Rightarrow> int" where
  "customer_count row = fst (snd row)"

text \<open>The dictionary returned by \<open>validate_customer_profiling\<close>.\<close>

record customer_metrics =
  total_customers :: int
  total_revenue :: real
  avg_order_value :: real
  avg_lifetime_value :: real

text \<open>
  \<open>validate_customer_profiling\<close> (lines 23-67). \<open>get_db_connection\<close> of this script
  (lines 12-21) is the bare \<open>psycopg2.connect\<close>: a failed connect is an exception. No
  \<open>try\<close> surrounds anything: an exception leaves the function at once, before
  \<open>cursor.close()\<close> and \<open>conn.close()\<close>. \<open>result[0]\<close> on a missing row raises
  \<open>TypeError\<close>.
  Line 52 guards its division with \<open>if result[1] > 0\<close>; line 56 divides by the same
  \<open>result[1]\<close> inside the f-string, after line 55 has been printed.
\<close>

definition validate_customer_profiling ::
  "profiling_env \<Rightarrow> (error + customer_metrics) \<times> event list" where
  "validate_customer_profiling env =
     (case connect_metrics env of
        Some e \<Rightarrow> (Inl e, [])
      | None \<Rightarrow>
     (case cursor_metrics env of
        Some e \<Rightarrow> (Inl e, [Connect])
      | None \<Rightarrow>
     (case fetch_metrics env of
        Inl e \<Rightarrow> (Inl e, [Connect, Cursor, Execute Q_customer_metrics])
      | Inr None \<Rightarrow> (Inl TypeError, [Connect, Cursor, Execute Q_customer_metrics])
      | Inr (Some (orders, customers, revenue, aov)) \<Rightarrow>
          (let t = [Connect, Cursor, Execute Q_customer_metrics,
                    Print (L_customer_metrics orders customers revenue aov)]
           in case (if customers > 0 then py_truediv revenue (of_int customers) else Inr 0) of
                Inl e \<Rightarrow> (Inl e, t)
              | Inr alv \<Rightarrow>
                 (case py_truediv (of_int orders) (of_int customers) of
                    Inl e \<Rightarrow> (Inl e, t @ [Print (L_avg_lifetime_value alv)])
                  | Inr opc \<Rightarrow>
                     (Inr \<lparr>total_customers = customers, total_revenue = revenue,
                           avg_order_value = aov, avg_lifetime_value = alv\<rparr>,
                      t @ [Print (L_avg_lifetime_value alv), Print (L_orders_per_customer opc),
                           CursorClose, ConnClose]))))))"

text \<open>
  The loop of lines 99-102 over the fetched rows, \<open>i\<close> counting from 1. The division
  by the sum \<open>tot\<close> of the customer counts (the local \<open>total_customers\<close> of the
  source) is evaluated once per row, and nowhere else.
\<close>

fun city_loop :: "int \<Rightarrow> nat \<Rightarrow> city_row list \<Rightarrow> error option \<times> event list" where
  "city_loop tot i [] = (None, [])"
| "city_loop tot i ((city, customers, orders, revenue) # rows) =
     (case py_truediv (of_int customers) (of_int tot) of
        Inl e \<Rightarrow> (Some e, [])
      | Inr q \<Rightarrow>
         (case city_loop tot (Suc i) rows of
            (r, t) \<Rightarrow> (r, Print (L_city i city customers (q * 100) revenue) # t)))"

text \<open>\<open>validate_geographic_distribution\<close> (lines 69-114): opens a connection of its own.\<close>

definition validate_geographic_distribution ::
  "profiling_env \<Rightarrow> (error + city_row list) \<times> event list" where
  "validate_geographic_distribution env =
     (case connect_geo env of
        Some e \<Rightarrow> (Inl e, [])
      | None \<Rightarrow>
     (case cursor_geo env of
        Some e \<Rightarrow> (Inl e, [Connect])
      | None \<Rightarrow>
     (case fetch_geo env of
        Inl e \<Rightarrow> (Inl e, [Connect, Cursor, Execute Q_geographic])
      | Inr results \<Rightarrow>
          (let top10_customers = sum_list (map (\<lambda>(city, customers, orders, revenue). customers) results);
               top10_revenue = sum_list (map (\<lambda>(city, customers, orders, revenue). revenue) results)
           in case city_loop top10_customers 1 results of
                (Some e, t) \<Rightarrow> (Inl e, [Connect, Cursor, Execute Q_geographic] @ t)
              | (None, t) \<Rightarrow>
                 (Inr results,
                  [Connect, Cursor, Execute Q_geographic] @ t @
                  [Print (L_geo_summary (length results) top10_customers top10_revenue),
                   CursorClose, ConnClose])))))"

text \<open>The second loop (lines 145-148), over \<open>real_cities[:5]\<close>.\<close>

fun real_city_loop :: "int \<Rightarrow> nat \<Rightarrow> city_row list \<Rightarrow> error option \<times> event list" where
  "real_city_loop tot i [] = (None, [])"
| "real_city_loop tot i ((city, customers, orders, revenue) # rows) =
     (case py_truediv (of_int customers) (of_int tot) of
        Inl e \<Rightarrow> (Some e, [])
      | Inr q \<Rightarrow>
         (case real_city_loop tot (Suc i) rows of
            (r, t) \<Rightarrow> (r, Print (L_real_city i city (q * 100) customers) # t)))"

record comparison =
  real_metrics :: customer_metrics
  real_cities :: "city_row list"

text \<open>
  \<open>compare_with_frontend\<close> (lines 116-166): the two metric functions in turn, then the
  comparison with the fixed front-end figures. The list of front-end issues it returns
  is constant and left out of the record.
\<close>

definition compare_with_frontend :: "profiling_env \<Rightarrow> (error + comparison) \<times> event list" where
  "compare_with_frontend env =
     (case validate_customer_profiling env of
        (Inl e, t1) \<Rightarrow> (Inl e, t1)
      | (Inr metrics, t1) \<Rightarrow>
     (case validate_geographic_distribution env of
        (Inl e, t2) \<Rightarrow> (Inl e, t1 @ t2)
      | (Inr cities, t2) \<Rightarrow>
          (let total_real_customers =
                 sum_list (map (\<lambda>(city, customers, orders, revenue). customers) cities)
           in case real_city_loop total_real_customers 1 (take 5 cities) of
                (Some e, t3) \<Rightarrow> (Inl e, t1 @ t2 @ t3)
              | (None, t3) \<Rightarrow>
                 (Inr \<lparr>real_metrics = metrics, real_cities = cities\<rparr>, t1 @ t2 @ t3))))"

text \<open>
  \<open>main\<close> of validate\_customer\_profiling.py (lines 168-197): one \<open>try\<close> around the
  whole run; \<open>except Exception\<close> prints the failure and the function returns normally.
\<close>

definition profiling_main :: "profiling_env \<Rightarrow> (error + unit) \<times> event list" where
  "profiling_main env =
     (case compare_with_frontend env of
        (Inl e, t) \<Rightarrow> (Inr (), t @ [Print (L_validation_failed e)])
      | (Inr validation_results, t) \<Rightarrow>
         (case json_dump env of
            Some e \<Rightarrow> (Inr (), t @ [Print (L_validation_failed e)])
          | None \<Rightarrow> (Inr (), t @ [JsonDump, Print L_results_saved])))"

text \<open>
  The process: \<open>if __name__ == '__main__': main()\<close>. The interpreter exits with status 0
  when the module body ends, and with status 1 when an exception escapes it.
\<close>

definition profiling_script :: "profiling_env \<Rightarrow> nat \<times> event list" where
  "profiling_script env =
     (case profiling_main env of
        (Inl e, t) \<Rightarrow> (1, t)
      | (Inr u, t) \<Rightarrow> (0, t))"

text \<open>Reading a trace: the values shown on the derived-metric lines.\<close>

fun shown_orders_per_customer :: "event list \<Rightarrow> real list" where
  "shown_orders_per_customer [] = []"
| "shown_orders_per_customer (Print (L_orders_per_customer v) # t) = v # shown_orders_per_customer t"
| "shown_orders_per_customer (e # t) = shown_orders_per_customer t"

fun shown_avg_lifetime_value :: "event list \<Rightarrow> real list" where
  "shown_avg_lifetime_value [] = []"
| "shown_avg_lifetime_value (Print (L_avg_lifetime_value v) # t) = v # shown_avg_lifetime_value t"
| "shown_avg_lifetime_value (e # t) = shown_avg_lifetime_value t"

fun shown_percentages :: "event list \<Rightarrow> real list" where
  "shown_percentages [] = []"
| "shown_percentages (Print (L_city i city customers p revenue) # t) = p # shown_percentages t"
| "shown_percentages (e # t) = shown_percentages t"

section \<open>validate\_metrics.py\<close>

text \<open>
  The environment of one run: the outcome of \<open>psycopg2.connect\<close>, of each
  \<open>conn.cursor()\<close> and of each query. \<open>fetch_table env t\<close> is the outcome of
  \<open>SELECT COUNT(*) FROM t\<close> followed by \<open>fetchone()[0]\<close>. The columns of the
  collaborative row may be SQL \<open>NULL\<close> (Python \<open>None\<close>), which the source replaces by 0.
\<close>

type_synonym collaborative_row =
  "int option \<times> int option \<times> int option \<times> int option \<times> int option \<times> real option"

record metrics_env =
  connect_db :: "error option"
  cursor_structure :: "error option"
  fetch_table :: "string \<Rightarrow> error + int"
  cursor_collaborative :: "error option"
  fetch_collaborative :: "error + collaborative_row option"
  cursor_high_value :: "error option"
  fetch_high_value :: "error + int option"
  cursor_cross_region :: "error option"
  fetch_cross_region :: "error + int option"

text \<open>
  \<open>get_db_connection\<close> of validate\_metrics.py (lines 16-30): a failed connect is caught
  here and becomes \<open>None\<close>.
\<close>

definition metrics_get_db_connection :: "metrics_env \<Rightarrow> unit option \<times> event list" where
  "metrics_get_db_connection env =
     (case connect_db env of
        Some e \<Rightarrow> (None, [Print (L_connection_failed e)])
      | None \<Rightarrow> (Some (), [Connect]))"

definition required_tables :: "string list" where
  "required_tables =
     [''orders'', ''order_items'', ''customer_purchases'',
      ''product_pairs'', ''product_statistics'', ''customer_statistics'']"

text \<open>
  The loop of \<open>validate_database_structure\<close> (lines 45-54): each table has a \<open>try\<close> of
  its own, and a failed count is recorded as \<open>-1\<close>.
\<close>

fun table_loop ::
  "metrics_env \<Rightarrow> string list \<Rightarrow> (string \<rightharpoonup> int) \<Rightarrow> (string \<rightharpoonup> int) \<times> event list" where
  "table_loop env [] table_status = (table_status, [])"
| "table_loop env (table # tables) table_status =
     (case fetch_table env table of
        Inl e \<Rightarrow>
          (case table_loop env tables (table_status(table \<mapsto> - 1)) of
             (s, t) \<Rightarrow> (s, Execute (Q_table_count table) # Print (L_table_failed table e) # t))
      | Inr count \<Rightarrow>
          (case table_loop env tables (table_status(table \<mapsto> count)) of
             (s, t) \<Rightarrow> (s, Execute (Q_table_count table) # Print (L_table table count) # t)))"

definition validate_database_structure ::
  "metrics_env \<Rightarrow> (error + (string \<rightharpoonup> int)) \<times> event list" where
  "validate_database_structure env =
     (case cursor_structure env of
        Some e \<Rightarrow> (Inl e, [])
      | None \<Rightarrow>
         (case table_loop env required_tables Map.empty of
            (table_status, t) \<Rightarrow> (Inr table_status, Cursor # t @ [CursorClose])))"

text \<open>The derived metrics of lines 135-137.\<close>

definition similarity_score :: "real \<Rightarrow> real" where
  "similarity_score avg_shared = (if avg_shared > 0 then min (avg_shared / 10) 1 else 0)"

definition max_possible_pairs :: "int \<Rightarrow> real" where
  "max_possible_pairs users =
     (if users > 1 then of_int (users * (users - 1)) / 2 else 1)"

definition recommendation_coverage :: "int \<Rightarrow> real \<Rightarrow> error + real" where
  "recommendation_coverage active_pairs pairs =
     (if pairs > 0
      then (case py_truediv (of_int active_pairs) pairs of
              Inl e \<Rightarrow> Inl e
            | Inr q \<Rightarrow> Inr (min q 1))
      else Inr 0)"

text \<open>Python's \<open>x or 0\<close> on a number that may be \<open>None\<close>.\<close>

definition or_zero :: "'a::zero option \<Rightarrow> 'a" where
  "or_zero x = (case x of None \<Rightarrow> 0 | Some v \<Rightarrow> v)"

text \<open>The dictionary returned by \<open>validate_collaborative_metrics\<close>.\<close>

record collaborative_metrics =
  total_users :: int
  total_products :: int
  total_purchases :: int
  total_recommendations :: int
  active_customer_pairs :: int
  avg_similarity_score :: real
  algorithm_accuracy :: real
  coverage :: real

text \<open>
  \<open>validate_collaborative_metrics\<close> (lines 59-161). \<open>conn.cursor()\<close> is outside the
  \<open>try\<close>; everything after it is inside, so whatever is raised there is caught, printed,
  and \<open>None\<close> is returned; \<open>finally\<close> closes the cursor on every path.
\<close>

definition validate_collaborative_metrics ::
  "metrics_env \<Rightarrow> (error + collaborative_metrics option) \<times> event list" where
  "validate_collaborative_metrics env =
     (case cursor_collaborative env of
        Some e \<Rightarrow> (Inl e, [])
      | None \<Rightarrow>
     (case fetch_collaborative env of
        Inl e \<Rightarrow>
          (Inr None, [Cursor, Execute Q_collaborative, Print (L_query_failed e), CursorClose])
      | Inr None \<Rightarrow>
          (Inr None, [Cursor, Execute Q_collaborative, Print L_no_results, CursorClose])
      | Inr (Some (r0, r1, r2, r3, r4, r5)) \<Rightarrow>
          (let users = or_zero r0;
               products = or_zero r1;
               purchases = or_zero r2;
               total_combinations = or_zero r3;
               active_pairs = or_zero r4;
               avg_shared = or_zero r5;
               t = [Cursor, Execute Q_collaborative,
                    Print (L_collaborative users products purchases total_combinations
                             active_pairs avg_shared)]
           in case recommendation_coverage active_pairs (max_possible_pairs users) of
                Inl e \<Rightarrow> (Inr None, t @ [Print (L_query_failed e), CursorClose])
              | Inr cov \<Rightarrow>
                 (Inr (Some \<lparr>total_users = users, total_products = products,
                             total_purchases = purchases,
                             total_recommendations = total_combinations,
                             active_customer_pairs = active_pairs,
                             avg_similarity_score = similarity_score avg_shared,
                             algorithm_accuracy = cov, coverage = cov\<rparr>),
                  t @ [Print (L_derived (similarity_score avg_shared) cov), CursorClose]))))"

text \<open>\<open>validate_high_value_pairs\<close> (lines 163-212).\<close>

definition validate_high_value_pairs :: "metrics_env \<Rightarrow> (error + int) \<times> event list" where
  "validate_high_value_pairs env =
     (case cursor_high_value env of
        Some e \<Rightarrow> (Inl e, [])
      | None \<Rightarrow>
     (case fetch_high_value env of
        Inl e \<Rightarrow> (Inr 0, [Cursor, Execute Q_high_value, Print (L_high_value_failed e), CursorClose])
      | Inr result \<Rightarrow>
          (let high_value_pairs = (case result of Some c \<Rightarrow> c | None \<Rightarrow> 0)
           in (Inr high_value_pairs,
               [Cursor, Execute Q_high_value, Print (L_high_value high_value_pairs), CursorClose]))))"

text \<open>\<open>validate_cross_region_products\<close> (lines 214-268).\<close>

definition validate_cross_region_products :: "metrics_env \<Rightarrow> (error + int) \<times> event list" where
  "validate_cross_region_products env =
     (case cursor_cross_region env of
        Some e \<Rightarrow> (Inl e, [])
      | None \<Rightarrow>
     (case fetch_cross_region env of
        Inl e \<Rightarrow> (Inr 0, [Cursor, Execute Q_cross_region, Print (L_cross_region_failed e), CursorClose])
      | Inr result \<Rightarrow>
          (let cross_region_count = (case result of Some c \<Rightarrow> c | None \<Rightarrow> 0)
           in (Inr cross_region_count,
               [Cursor, Execute Q_cross_region, Print (L_cross_region cross_region_count), CursorClose]))))"

text \<open>The summary and the advice printed by \<open>main\<close> (lines 301-330).\<close>

definition summary :: "collaborative_metrics option \<Rightarrow> int \<Rightarrow> int \<Rightarrow> event list" where
  "summary metrics high_value_pairs cross_region_products =
     (case metrics of
        Some m \<Rightarrow> [Print (L_summary_passed (total_users m) (active_customer_pairs m)
                            (avg_similarity_score m) (algorithm_accuracy m))]
      | None \<Rightarrow> [Print L_summary_failed]) @
     [Print (L_summary_counts high_value_pairs cross_region_products)] @
     (case metrics of
        Some m \<Rightarrow> (if active_customer_pairs m < 100 then [Print L_advice_campaigns] else [])
      | None \<Rightarrow> []) @
     (if high_value_pairs < 50 then [Print L_advice_bundles] else []) @
     (if cross_region_products < 20 then [Print L_advice_regions] else []) @
     [Print L_completed]"

text \<open>The \<open>try\<close> block of \<open>main\<close> (lines 282-331).\<close>

definition metrics_main_try :: "metrics_env \<Rightarrow> (error + bool) \<times> event list" where
  "metrics_main_try env =
     (case validate_database_structure env of
        (Inl e, t1) \<Rightarrow> (Inl e, t1)
      | (Inr table_status, t1) \<Rightarrow>
     (let orders_count = (case table_status ''orders'' of None \<Rightarrow> 0 | Some c \<Rightarrow> c);
          w = (if orders_count < 100 then [Print (L_orders_warning orders_count)] else [])
      in
     (case validate_collaborative_metrics env of
        (Inl e, t2) \<Rightarrow> (Inl e, t1 @ w @ t2)
      | (Inr metrics, t2) \<Rightarrow>
     (case validate_high_value_pairs env of
        (Inl e, t3) \<Rightarrow> (Inl e, t1 @ w @ t2 @ t3)
      | (Inr high_value_pairs, t3) \<Rightarrow>
     (case validate_cross_region_products env of
        (Inl e, t4) \<Rightarrow> (Inl e, t1 @ w @ t2 @ t3 @ t4)
      | (Inr cross_region_products, t4) \<Rightarrow>
          (Inr True,
           t1 @ w @ t2 @ t3 @ t4 @ summary metrics high_value_pairs cross_region_products))))))"

text \<open>
  \<open>main\<close> of validate\_metrics.py (lines 270-337): without a connection it returns
  \<open>False\<close>; otherwise it runs the \<open>try\<close> block, turns an exception into \<open>False\<close>, and
  closes the connection in \<open>finally\<close>.
\<close>

definition metrics_main :: "metrics_env \<Rightarrow> bool \<times> event list" where
  "metrics_main env =
     (case metrics_get_db_connection env of
        (None, t0) \<Rightarrow> (False, t0 @ [Print L_cannot_proceed])
      | (Some conn, t0) \<Rightarrow>
         (case metrics_main_try env of
            (Inl e, t) \<Rightarrow> (False, t0 @ t @ [Print (L_validation_failed e), ConnClose])
          | (Inr success, t) \<Rightarrow> (success, t0 @ t @ [ConnClose])))"

text \<open>The process: \<open>success = main(); sys.exit(0 if success else 1)\<close>.\<close>

definition metrics_script :: "metrics_env \<Rightarrow> nat \<times> event list" where
  "metrics_script env =
     (case metrics_main env of (success, t) \<Rightarrow> (if success then 0 else 1, t))"

section \<open>Reading a trace: connections\<close>

fun connections_opened :: "event list \<Rightarrow> nat" where
  "connections_opened [] = 0"
| "connections_opened (Connect # t) = Suc (connections_opened t)"
| "connections_opened (e # t) = connections_opened t"

text \<open>
  \<open>one_at_a_time is_open t\<close>: starting with a connection open or not, the trace never opens
  a connection while one is open, touches the database only while one is open, closes only
  an open connection, and leaves none open at the end.
\<close>

fun one_at_a_time :: "bool \<Rightarrow> event list \<Rightarrow> bool" where
  "one_at_a_time is_open [] = (\<not> is_open)"
| "one_at_a_time is_open (Connect # t) = (\<not> is_open \<and> one_at_a_time True t)"
| "one_at_a_time is_open (ConnClose # t) = (is_open \<and> one_at_a_time False t)"
| "one_at_a_time is_open (Cursor # t) = (is_open \<and> one_at_a_time is_open t)"
| "one_at_a_time is_open (Execute q # t) = (is_open \<and> one_at_a_time is_open t)"
| "one_at_a_time is_open (CursorClose # t) = (is_open \<and> one_at_a_time is_open t)"
| "one_at_a_time is_open (Print l # t) = one_at_a_time is_open t"
| "one_at_a_time is_open (JsonDump # t) = one_at_a_time is_open t"

text \<open>The queries of a trace, in the order they were sent.\<close>

fun executed :: "event list \<Rightarrow> query list" where
  "executed [] = []"
| "executed (Execute q # t) = q # executed t"
| "executed (e # t) = executed t"

section \<open>The collaborative query: \<open>customer_products\<close> and \<open>customer_pairs\<close>\<close>

text \<open>
  The first two common table expressions of the SQL statement in
  \<open>validate_collaborative_metrics\<close> (lines 70-91), over tables given as lists of rows. The
  schema is not part of the repository, so identifiers are of any type (customers of a
  linearly ordered one, as \<open><\<close> compares them) and every column may be \<open>NULL\<close>
  (\<open>None\<close>). Dates are day numbers; \<open>today\<close> is \<open>CURRENT_DATE\<close>.

  A comparison with \<open>NULL\<close> is unknown, and \<open>ON\<close>, \<open>WHERE\<close> and \<open>HAVING\<close> keep a
  row only when the condition is true: the functions below say when it is true.
  \<open>GROUP BY\<close> and \<open>DISTINCT\<close> treat two \<open>NULL\<close>s as the same value.
\<close>

record ('o, 'c) order_row =
  o_id :: "'o option"
  o_unified_customer_id :: "'c option"
  o_order_date :: "int option"

record ('o, 'p) order_item_row =
  oi_order_id :: "'o option"
  oi_product_id :: "'p option"

fun sql_eq :: "'a option \<Rightarrow> 'a option \<Rightarrow> bool" where
  "sql_eq (Some x) (Some y) = (x = y)"
| "sql_eq x y = False"

fun sql_less :: "'a::linorder option \<Rightarrow> 'a option \<Rightarrow> bool" where
  "sql_less (Some x) (Some y) = (x < y)"
| "sql_less x y = False"

fun sql_ge :: "'a::linorder option \<Rightarrow> 'a option \<Rightarrow> bool" where
  "sql_ge (Some x) (Some y) = (x \<ge> y)"
| "sql_ge x y = False"

text \<open>
  \<open>orders o JOIN order_items oi ON o.id = oi.order_id WHERE o.order_date >= CURRENT_DATE -
  INTERVAL '30 days'\<close>, projected on the two grouping columns.
\<close>

definition purchases ::
  "int \<Rightarrow> ('o, 'c) order_row list \<Rightarrow> ('o, 'p) order_item_row list \<Rightarrow> ('c option \<times> 'p option) list" where
  "purchases today orders order_items =
     [(o_unified_customer_id ord, oi_product_id item).
        ord \<leftarrow> orders, item \<leftarrow> order_items,
        sql_eq (o_id ord) (oi_order_id item) \<and> sql_ge (o_order_date ord) (Some (today - 30))]"

text \<open>\<open>GROUP BY o.unified_customer_id, oi.product_id\<close> with \<open>COUNT(*)\<close>.\<close>

definition customer_products ::
  "int \<Rightarrow> ('o, 'c) order_row list \<Rightarrow> ('o, 'p) order_item_row list \<Rightarrow>
   ('c option \<times> 'p option \<times> nat) list" where
  "customer_products today orders order_items =
     (let joined = purchases today orders order_items
      in map (\<lambda>(c, p). (c, p, count_list joined (c, p))) (remdups joined))"

text \<open>
  The self-join \<open>cp1 JOIN cp2 ON cp1.product_id = cp2.product_id AND
  cp1.unified_customer_id < cp2.unified_customer_id\<close>.
\<close>

definition shared_rows ::
  "('c::linorder option \<times> 'p option \<times> nat) list \<Rightarrow> ('c option \<times> 'c option \<times> 'p option) list" where
  "shared_rows cp =
     [(c1, c2, p1). (c1, p1, n1) \<leftarrow> cp, (c2, p2, n2) \<leftarrow> cp, sql_eq p1 p2 \<and> sql_less c1 c2]"

text \<open>\<open>COUNT(DISTINCT cp1.product_id)\<close> of the group of \<open>(customer1, customer2)\<close>.\<close>

definition shared_products ::
  "('c option \<times> 'c option \<times> 'p option) list \<Rightarrow> 'c option \<Rightarrow> 'c option \<Rightarrow> nat" where
  "shared_products joined customer1 customer2 =
     length (remdups [p. (c1, c2, p) \<leftarrow> joined, c1 = customer1 \<and> c2 = customer2 \<and> p \<noteq> None])"

text \<open>
  \<open>SELECT DISTINCT customer1, customer2, shared_products ... GROUP BY cp1.unified_customer_id,
  cp2.unified_customer_id HAVING COUNT(DISTINCT cp1.product_id) >= 2\<close>.
\<close>

definition customer_pairs ::
  "('c::linorder option \<times> 'p option \<times> nat) list \<Rightarrow> ('c option \<times> 'c option \<times> nat) list" where
  "customer_pairs cp =
     (let joined = shared_rows cp;
          groups = remdups (map (\<lambda>(c1, c2, p). (c1, c2)) joined)
      in remdups
           (map (\<lambda>(customer1, customer2).
                   (customer1, customer2, shared_products joined customer1 customer2))
              (filter (\<lambda>(customer1, customer2). shared_products joined customer1 customer2 \<ge> 2)
                 groups)))"

text \<open>
  Customer \<open>c\<close> bought product \<open>p\<close> in the window: some order of \<open>c\<close> in the last 30 days
  has an item of \<open>p\<close>.
\<close>

definition bought ::
  "int \<Rightarrow> ('o, 'c) order_row list \<Rightarrow> ('o, 'p) order_item_row list \<Rightarrow> 'c option \<Rightarrow> 'p \<Rightarrow> bool" where
  "bought today orders order_items c p =
     list_ex (\<lambda>ord. list_ex (\<lambda>item.
        o_unified_customer_id ord = c \<and> oi_product_id item = Some p \<and>
        sql_eq (o_id ord) (oi_order_id item) \<and> sql_ge (o_order_date ord) (Some (today - 30)))
        order_items) orders"

section \<open>Customer profiling: the derived metrics\<close>

text \<open>
  C1. The specification gives \<open>orders_per_customer\<close> the same zero guard as
  \<open>avg_lifetime_value\<close>, so that zero customers yield 0 and nothing is raised. The code
  guards line 52 only: on the zero-orders row \<open>(0, 0, 0, 0)\<close> line 56 divides by
  \<open>result[1] = 0\<close> and \<open>validate_customer_profiling\<close> ends in \<open>ZeroDivisionError\<close>,
  after printing the average lifetime value 0 and before showing any orders-per-customer
  figure, closing the cursor or the connection, or returning its dictionary.
\<close>

theorem orders_per_customer_unguarded:
  "validate_customer_profiling
     \<lparr>connect_metrics = None, cursor_metrics = None, fetch_metrics = Inr (Some (0, 0, 0, 0)),
      connect_geo = None, cursor_geo = None, fetch_geo = Inr [], json_dump = None\<rparr>
   = (Inl ZeroDivisionError,
      [Connect, Cursor, Execute Q_customer_metrics, Print (L_customer_metrics 0 0 0 0),
       Print (L_avg_lifetime_value 0)])"
  by (simp add: validate_customer_profiling_def py_truediv_def)

text \<open>
  C7. Whatever row the customer-metrics query returns, the average lifetime value the
  function derives (and prints on line 55) is \<open>total_revenue / total_customers\<close> when
  \<open>total_customers > 0\<close> and 0 otherwise; when \<open>total_customers > 0\<close> the function
  returns, and the returned dictionary holds that quotient. The statement needs no sign
  condition: it holds for every integer \<open>customers\<close>.
\<close>

theorem avg_lifetime_value_guarded:
  assumes "connect_metrics env = None" and "cursor_metrics env = None"
    and "fetch_metrics env = Inr (Some (orders, customers, revenue, aov))"
  shows "shown_avg_lifetime_value (snd (validate_customer_profiling env)) =
           [if customers > 0 then revenue / of_int customers else 0] \<and>
         (customers > 0 \<longrightarrow>
            (\<exists>m. fst (validate_customer_profiling env) = Inr m \<and>
                 avg_lifetime_value m = revenue / of_int customers))"
  using assms by (simp add: validate_customer_profiling_def py_truediv_def)

theorem avg_lifetime_value_guarded_witness:
  "shown_avg_lifetime_value (snd (validate_customer_profiling
      \<lparr>connect_metrics = None, cursor_metrics = None, fetch_metrics = Inr (Some (3, 2, 600, 200)),
       connect_geo = None, cursor_geo = None, fetch_geo = Inr [], json_dump = None\<rparr>)) = [300] \<and>
   shown_avg_lifetime_value (snd (validate_customer_profiling
      \<lparr>connect_metrics = None, cursor_metrics = None, fetch_metrics = Inr (Some (0, 0, 0, 0)),
       connect_geo = None, cursor_geo = None, fetch_geo = Inr [], json_dump = None\<rparr>)) = [0]"
  using avg_lifetime_value_guarded
          [of "\<lparr>connect_metrics = None, cursor_metrics = None,
                 fetch_metrics = Inr (Some (3, 2, 600, 200)),
                 connect_geo = None, cursor_geo = None, fetch_geo = Inr [], json_dump = None\<rparr>"
              3 2 600 200]
        avg_lifetime_value_guarded
          [of "\<lparr>connect_metrics = None, cursor_metrics = None,
                 fetch_metrics = Inr (Some (0, 0, 0, 0)),
                 connect_geo = None, cursor_geo = None, fetch_geo = Inr [], json_dump = None\<rparr>"
              0 0 0 0]
  by simp

section \<open>Geographic distribution\<close>

text \<open>
  C10. When the geographic query returns no row, \<open>validate_geographic_distribution\<close>
  returns the empty list: the loop body, the only place where the top-10 customer total
  is a divisor, is never entered, and the run prints the summary with zero totals and
  closes cursor and connection.
\<close>

theorem geographic_empty_result:
  assumes "connect_geo env = None" and "cursor_geo env = None" and "fetch_geo env = Inr []"
  shows "validate_geographic_distribution env =
           (Inr [], [Connect, Cursor, Execute Q_geographic, Print (L_geo_summary 0 0 0),
                     CursorClose, ConnClose])"
  using assms by (simp add: validate_geographic_distribution_def)

theorem geographic_empty_result_witness:
  "fst (validate_geographic_distribution
      \<lparr>connect_metrics = None, cursor_metrics = None, fetch_metrics = Inr None,
       connect_geo = None, cursor_geo = None, fetch_geo = Inr [], json_dump = None\<rparr>) = Inr []"
  using geographic_empty_result
          [of "\<lparr>connect_metrics = None, cursor_metrics = None, fetch_metrics = Inr None,
                 connect_geo = None, cursor_geo = None, fetch_geo = Inr [],
                 json_dump = None\<rparr>"]
  by simp

lemma city_loop_nonzero:
  assumes "tot \<noteq> 0"
  shows "fst (city_loop tot i rows) = None \<and>
     shown_percentages (snd (city_loop tot i rows)) =
       map (\<lambda>row. of_int (customer_count row) / of_int tot * 100) rows"
proof (induction rows arbitrary: i)
  case Nil
  show ?case by simp
next
  case (Cons row rows)
  obtain city customers orders revenue where row: "row = (city, customers, orders, revenue)"
    by (cases row) auto
  obtain r t where rt: "city_loop tot (Suc i) rows = (r, t)"
    by (cases "city_loop tot (Suc i) rows") auto
  from Cons.IH [of "Suc i"] rt have "r = None" and
    "shown_percentages t = map (\<lambda>row. of_int (customer_count row) / of_int tot * 100) rows"
    by simp_all
  with assms row rt show ?case
    by (simp add: py_truediv_def customer_count_def)
qed

lemma sum_list_scaled:
  "sum_list (map (\<lambda>row. real_of_int (customer_count row) / k * 100) rs)
     = of_int (sum_list (map customer_count rs)) / k * 100"
  by (induction rs) (auto simp: add_divide_distrib distrib_right)

lemma sum_counts:
  "sum_list (map (\<lambda>(city, customers, orders, revenue). customers) rs) =
   sum_list (map customer_count rs)"
  by (induction rs) (auto simp: customer_count_def)

lemma shown_percentages_append:
  "shown_percentages (a @ b) = shown_percentages a @ shown_percentages b"
  by (induction a rule: shown_percentages.induct) auto

text \<open>
  C5, as the code has it. The claim speaks of every non-empty result set, but a non-empty
  set whose customer counts are all 0 (the cities whose orders have no
  \<open>unified_customer_id\<close>: \<open>COUNT(DISTINCT ...)\<close> skips \<open>NULL\<close>) has total 0, and the
  division of line 101 raises. For every result set whose customer counts have a non-zero
  sum, the function returns the rows, the percentage shown for each city is
  \<open>customer_count / total * 100\<close> with \<open>total\<close> the sum over the returned rows, and the
  percentages add up to 100 (in exact arithmetic).
\<close>

theorem percentages_of_top10:
  assumes "connect_geo env = None" and "cursor_geo env = None"
    and "fetch_geo env = Inr results"
    and "sum_list (map customer_count results) \<noteq> 0"
  shows "fst (validate_geographic_distribution env) = Inr results \<and>
         shown_percentages (snd (validate_geographic_distribution env)) =
           map (\<lambda>row. of_int (customer_count row) /
                       of_int (sum_list (map customer_count results)) * 100) results \<and>
         sum_list (shown_percentages (snd (validate_geographic_distribution env))) = 100"
proof -
  let ?tot = "sum_list (map customer_count results)"
  obtain r t where rt: "city_loop ?tot 1 results = (r, t)"
    by (cases "city_loop ?tot 1 results") auto
  from city_loop_nonzero [OF assms(4), of 1 results] rt
  have r: "r = None"
    and t: "shown_percentages t =
              map (\<lambda>row. of_int (customer_count row) / of_int ?tot * 100) results"
    by simp_all
  have run: "validate_geographic_distribution env =
     (Inr results, [Connect, Cursor, Execute Q_geographic] @ t @
        [Print (L_geo_summary (length results) ?tot
           (sum_list (map (\<lambda>(city, customers, orders, revenue). revenue) results))),
         CursorClose, ConnClose])"
    using assms(1-3) rt r by (simp add: validate_geographic_distribution_def sum_counts)
  have shown: "shown_percentages (snd (validate_geographic_distribution env)) =
                 shown_percentages t"
    by (simp add: run shown_percentages_append)
  have "sum_list (shown_percentages t) = 100"
    unfolding t sum_list_scaled using assms(4) by simp
  with shown t run show ?thesis by simp
qed

theorem percentages_of_top10_witness:
  "shown_percentages (snd (validate_geographic_distribution
      \<lparr>connect_metrics = None, cursor_metrics = None, fetch_metrics = Inr None,
       connect_geo = None, cursor_geo = None,
       fetch_geo = Inr [(''Lahore'', 3, 4, 900), (''Karachi'', 1, 1, 100)],
       json_dump = None\<rparr>))
    = [75, 25]"
  using percentages_of_top10
          [of "\<lparr>connect_metrics = None, cursor_metrics = None, fetch_metrics = Inr None,
                 connect_geo = None, cursor_geo = None,
                 fetch_geo = Inr [(''Lahore'', 3, 4, 900), (''Karachi'', 1, 1, 100)],
                 json_dump = None\<rparr>"
              "[(''Lahore'', 3, 4, 900), (''Karachi'', 1, 1, 100)]"]
  by (simp add: customer_count_def)

text \<open>
  The claim as stated fails on the non-empty result set \<open>[('Lahore', 0, 1, 500)]\<close>: the
  function raises and no percentage is shown.
\<close>

theorem percentage_zero_total_counterexample:
  "fst (validate_geographic_distribution
      \<lparr>connect_metrics = None, cursor_metrics = None, fetch_metrics = Inr None,
       connect_geo = None, cursor_geo = None, fetch_geo = Inr [(''Lahore'', 0, 1, 500)],
       json_dump = None\<rparr>) = Inl ZeroDivisionError \<and>
   shown_percentages (snd (validate_geographic_distribution
      \<lparr>connect_metrics = None, cursor_metrics = None, fetch_metrics = Inr None,
       connect_geo = None, cursor_geo = None, fetch_geo = Inr [(''Lahore'', 0, 1, 500)],
       json_dump = None\<rparr>)) = []"
  by (simp add: validate_geographic_distribution_def py_truediv_def)

section \<open>Collaborative metrics: the derived scores\<close>

lemma max_possible_pairs_ge_1: "1 \<le> max_possible_pairs users"
proof (cases "users > 1")
  case True
  then have "2 * 1 \<le> users * (users - 1)"
    by (intro mult_mono) auto
  then have "(2::real) \<le> of_int (users * (users - 1))"
    by linarith
  with True show ?thesis by (simp add: max_possible_pairs_def)
next
  case False
  then show ?thesis by (simp add: max_possible_pairs_def)
qed

lemma recommendation_coverage_value:
  "recommendation_coverage active_pairs (max_possible_pairs users) =
     Inr (min (of_int active_pairs / max_possible_pairs users) 1)"
  using max_possible_pairs_ge_1 [of users]
  by (simp add: recommendation_coverage_def py_truediv_def)

text \<open>
  C8. For every integer \<open>total_users\<close>, \<open>max_possible_pairs\<close> is
  \<open>total_users * (total_users - 1) / 2\<close> when \<open>total_users > 1\<close> and the sentinel 1
  otherwise; it is at least 1, so never zero or negative, and the division of
  \<open>recommendation_coverage\<close> by it raises nothing.
\<close>

theorem max_possible_pairs_positive:
  "max_possible_pairs users =
     (if users > 1 then of_int users * (of_int users - 1) / 2 else 1) \<and>
   0 < max_possible_pairs users \<and> 1 \<le> max_possible_pairs users \<and>
   (\<exists>c. recommendation_coverage active_pairs (max_possible_pairs users) = Inr c)"
proof -
  have "max_possible_pairs users =
          (if users > 1 then of_int users * (of_int users - 1) / 2 else 1)"
    by (simp add: max_possible_pairs_def)
  moreover have "1 \<le> max_possible_pairs users"
    by (rule max_possible_pairs_ge_1)
  moreover have "\<exists>c. recommendation_coverage active_pairs (max_possible_pairs users) = Inr c"
    by (simp add: recommendation_coverage_value)
  ultimately show ?thesis by simp
qed

text \<open>
  C6. When the collaborative query returns a row whose pair count and average of shared
  products are non-negative (whatever the number of users),
  \<open>validate_collaborative_metrics\<close> returns a dictionary in which the similarity score is
  \<open>min(avg_shared_products / 10, 1)\<close> (0 when the average is 0) and the recommendation
  coverage is \<open>min(active_customer_pairs / max_possible_pairs, 1)\<close>, and both lie in
  \<open>[0, 1]\<close>.
\<close>

theorem derived_scores_in_unit_interval:
  assumes "cursor_collaborative env = None"
    and "fetch_collaborative env = Inr (Some (r0, r1, r2, r3, r4, r5))"
    and "0 \<le> or_zero r4" and "0 \<le> or_zero r5"
  shows "\<exists>m. fst (validate_collaborative_metrics env) = Inr (Some m) \<and>
           avg_similarity_score m = (if or_zero r5 = 0 then 0 else min (or_zero r5 / 10) 1) \<and>
           0 \<le> avg_similarity_score m \<and> avg_similarity_score m \<le> 1 \<and>
           coverage m = min (of_int (or_zero r4) / max_possible_pairs (or_zero r0)) 1 \<and>
           0 \<le> coverage m \<and> coverage m \<le> 1"
proof -
  let ?cov = "min (of_int (or_zero r4) / max_possible_pairs (or_zero r0)) (1::real)"
  let ?sim = "similarity_score (or_zero r5)"
  have pos: "0 < max_possible_pairs (or_zero r0)"
    using max_possible_pairs_ge_1 [of "or_zero r0"] by linarith
  have sim: "?sim = (if or_zero r5 = 0 then 0 else min (or_zero r5 / 10) 1)"
    using assms(4) by (simp add: similarity_score_def)
  have sim_range: "0 \<le> ?sim \<and> ?sim \<le> 1"
    by (simp add: similarity_score_def)
  have "0 \<le> real_of_int (or_zero r4) / max_possible_pairs (or_zero r0)"
    using assms(3) pos by simp
  then have cov_range: "0 \<le> ?cov \<and> ?cov \<le> 1"
    by simp
  have "\<exists>m. fst (validate_collaborative_metrics env) = Inr (Some m) \<and>
          avg_similarity_score m = ?sim \<and> coverage m = ?cov"
    using assms(1,2)
    by (simp add: validate_collaborative_metrics_def recommendation_coverage_value Let_def)
  with sim sim_range cov_range show ?thesis by metis
qed

theorem derived_scores_in_unit_interval_witness:
  "\<exists>m. fst (validate_collaborative_metrics
            \<lparr>connect_db = None, cursor_structure = None, fetch_table = (\<lambda>t. Inr 0),
             cursor_collaborative = None,
             fetch_collaborative = Inr (Some (Some 2, Some 2, Some 4, Some 4, Some 1, Some 2)),
             cursor_high_value = None, fetch_high_value = Inr (Some 0),
             cursor_cross_region = None, fetch_cross_region = Inr (Some 0)\<rparr>) = Inr (Some m) \<and>
        avg_similarity_score m = 1 / 5 \<and> coverage m = 1"
  using derived_scores_in_unit_interval
          [of "\<lparr>connect_db = None, cursor_structure = None, fetch_table = (\<lambda>t. Inr 0),
                 cursor_collaborative = None,
                 fetch_collaborative = Inr (Some (Some 2, Some 2, Some 4, Some 4, Some 1, Some 2)),
                 cursor_high_value = None, fetch_high_value = Inr (Some 0),
                 cursor_cross_region = None, fetch_cross_region = Inr (Some 0)\<rparr>"
              "Some 2" "Some 2" "Some 4" "Some 4" "Some 1" "Some 2"]
  by (auto simp: or_zero_def max_possible_pairs_def)

section \<open>Collaborative metrics: the pairing relation\<close>

lemma set_purchases:
  "(c, p) \<in> set (purchases today orders order_items) \<longleftrightarrow>
     (\<exists>od \<in> set orders. \<exists>oi \<in> set order_items.
        c = o_unified_customer_id od \<and> p = oi_product_id oi \<and>
        sql_eq (o_id od) (oi_order_id oi) \<and> sql_ge (o_order_date od) (Some (today - 30)))"
  by (auto simp: purchases_def)

lemma set_customer_products:
  "(c, p, k) \<in> set (customer_products today orders order_items) \<longleftrightarrow>
     (c, p) \<in> set (purchases today orders order_items) \<and>
     k = count_list (purchases today orders order_items) (c, p)"
  by (auto simp: customer_products_def Let_def)

lemma bought_iff:
  "bought today orders order_items c p \<longleftrightarrow>
     (c, Some p) \<in> set (purchases today orders order_items)"
  unfolding bought_def set_purchases list_ex_iff by (safe; metis)

lemma sql_eq_iff: "sql_eq x y \<longleftrightarrow> (\<exists>v. x = Some v \<and> y = Some v)"
  by (cases x; cases y) auto

lemma sql_less_iff: "sql_less x y \<longleftrightarrow> (\<exists>v w. x = Some v \<and> y = Some w \<and> v < w)"
  by (cases x; cases y) auto

lemma set_shared_rows:
  "(a, b, p) \<in> set (shared_rows cp) \<longleftrightarrow>
     (\<exists>n1 n2 p2. (a, p, n1) \<in> set cp \<and> (b, p2, n2) \<in> set cp \<and>
                 sql_eq p p2 \<and> sql_less a b)"
  by (auto simp: shared_rows_def) blast+

lemma shared_products_card:
  "shared_products joined a b = card {p. (a, b, Some p) \<in> set joined}"
proof -
  have "set [p. (c1, c2, p) \<leftarrow> joined, c1 = a \<and> c2 = b \<and> p \<noteq> None] =
          Some ` {p. (a, b, Some p) \<in> set joined}"
    by (auto simp: image_iff)
  then have "shared_products joined a b = card (Some ` {p. (a, b, Some p) \<in> set joined})"
    unfolding shared_products_def by (simp add: length_remdups_card_conv)
  also have "\<dots> = card {p. (a, b, Some p) \<in> set joined}"
    by (rule card_image) simp
  finally show ?thesis .
qed

lemma set_customer_pairs:
  "(a, b, n) \<in> set (customer_pairs cp) \<longleftrightarrow>
     (\<exists>p. (a, b, p) \<in> set (shared_rows cp)) \<and>
     n = shared_products (shared_rows cp) a b \<and> 2 \<le> n"
  by (auto simp: customer_pairs_def Let_def image_iff) force+

lemma distinct_customer_pairs:
  "distinct (map (\<lambda>(a, b, n). (a, b)) (customer_pairs cp))"
proof -
  let ?j = "shared_rows cp"
  let ?g = "filter (\<lambda>(c1, c2). shared_products ?j c1 c2 \<ge> 2)
              (remdups (map (\<lambda>(c1, c2, p). (c1, c2)) ?j))"
  let ?f = "\<lambda>(c1, c2). (c1, c2, shared_products ?j c1 c2)"
  have inj: "inj_on ?f (set ?g)" by (auto simp: inj_on_def)
  have d: "distinct (map ?f ?g)" using inj by (simp add: distinct_map)
  have "customer_pairs cp = map ?f ?g"
    unfolding customer_pairs_def Let_def using d by (simp only: distinct_remdups_id)
  moreover have "map (\<lambda>(a, b, n). (a, b)) (map ?f ?g) = ?g"
    by (induction ?g) (auto simp: split_beta intro: map_idI)
  ultimately show ?thesis by simp
qed

lemma shared_rows_of_products:
  assumes "sql_less a b"
  shows "(a, b, Some p) \<in> set (shared_rows (customer_products today orders order_items))
         \<longleftrightarrow> bought today orders order_items a p \<and> bought today orders order_items b p"
  using assms
  by (auto simp: set_shared_rows set_customer_products bought_iff sql_eq_iff)

text \<open>
  C4. Every row \<open>(a, b, n)\<close> of \<open>customer_pairs\<close> has \<open>a < b\<close> (both not \<open>NULL\<close>), so
  \<open>a \<noteq> b\<close> and the reversed pair is in no row; \<open>n\<close> is the number of distinct products
  both customers bought in the window, and it is at least 2; and no pair of customers
  occurs in two rows.
\<close>

theorem customer_pairs_irreflexive_unique:
  assumes "(a, b, n) \<in> set (customer_pairs (customer_products today orders order_items))"
  shows "a \<noteq> b \<and> sql_less a b \<and>
         (\<forall>m. (b, a, m) \<notin> set (customer_pairs (customer_products today orders order_items))) \<and>
         n = card {p. bought today orders order_items a p \<and> bought today orders order_items b p} \<and>
         2 \<le> n \<and>
         distinct (map (\<lambda>(a, b, n). (a, b))
                     (customer_pairs (customer_products today orders order_items)))"
proof -
  let ?cp = "customer_products today orders order_items"
  from assms obtain p where p: "(a, b, p) \<in> set (shared_rows ?cp)"
    and n: "n = shared_products (shared_rows ?cp) a b" and two: "2 \<le> n"
    by (auto simp: set_customer_pairs)
  from p have less: "sql_less a b"
    by (auto simp: set_shared_rows)
  then obtain v w where vw: "a = Some v" "b = Some w" "v < w"
    by (auto simp: sql_less_iff)
  then have neq: "a \<noteq> b" by auto
  from vw have "\<not> sql_less b a" by auto
  then have rev: "\<forall>m. (b, a, m) \<notin> set (customer_pairs ?cp)"
    by (auto simp: set_customer_pairs set_shared_rows)
  have "n = card {p. (a, b, Some p) \<in> set (shared_rows ?cp)}"
    by (simp add: n shared_products_card)
  then have card: "n = card {p. bought today orders order_items a p \<and>
                                 bought today orders order_items b p}"
    by (simp add: shared_rows_of_products [OF less])
  from neq less rev card two distinct_customer_pairs [of ?cp] show ?thesis
    by blast
qed

theorem customer_pairs_irreflexive_unique_witness:
  "customer_pairs (customer_products 110
     [\<lparr>o_id = Some (1::nat), o_unified_customer_id = Some (10::nat), o_order_date = Some 100\<rparr>,
      \<lparr>o_id = Some 2, o_unified_customer_id = Some 20, o_order_date = Some 100\<rparr>,
      \<lparr>o_id = Some 3, o_unified_customer_id = Some 10, o_order_date = Some 95\<rparr>,
      \<lparr>o_id = Some 4, o_unified_customer_id = Some 30, o_order_date = Some 70\<rparr>]
     [\<lparr>oi_order_id = Some 1, oi_product_id = Some (7::nat)\<rparr>,
      \<lparr>oi_order_id = Some 2, oi_product_id = Some 7\<rparr>,
      \<lparr>oi_order_id = Some 3, oi_product_id = Some 8\<rparr>,
      \<lparr>oi_order_id = Some 2, oi_product_id = Some 8\<rparr>,
      \<lparr>oi_order_id = Some 4, oi_product_id = Some 8\<rparr>,
      \<lparr>oi_order_id = Some 4, oi_product_id = Some 7\<rparr>]) = [(Some 10, Some 20, 2)] \<and>
   card {p. bought 110
     [\<lparr>o_id = Some (1::nat), o_unified_customer_id = Some (10::nat), o_order_date = Some 100\<rparr>,
      \<lparr>o_id = Some 2, o_unified_customer_id = Some 20, o_order_date = Some 100\<rparr>,
      \<lparr>o_id = Some 3, o_unified_customer_id = Some 10, o_order_date = Some 95\<rparr>,
      \<lparr>o_id = Some 4, o_unified_customer_id = Some 30, o_order_date = Some 70\<rparr>]
     [\<lparr>oi_order_id = Some 1, oi_product_id = Some (7::nat)\<rparr>,
      \<lparr>oi_order_id = Some 2, oi_product_id = Some 7\<rparr>,
      \<lparr>oi_order_id = Some 3, oi_product_id = Some 8\<rparr>,
      \<lparr>oi_order_id = Some 2, oi_product_id = Some 8\<rparr>,
      \<lparr>oi_order_id = Some 4, oi_product_id = Some 8\<rparr>,
      \<lparr>oi_order_id = Some 4, oi_product_id = Some 7\<rparr>] (Some 10) p \<and>
           bought 110
     [\<lparr>o_id = Some (1::nat), o_unified_customer_id = Some (10::nat), o_order_date = Some 100\<rparr>,
      \<lparr>o_id = Some 2, o_unified_customer_id = Some 20, o_order_date = Some 100\<rparr>,
      \<lparr>o_id = Some 3, o_unified_customer_id = Some 10, o_order_date = Some 95\<rparr>,
      \<lparr>o_id = Some 4, o_unified_customer_id = Some 30, o_order_date = Some 70\<rparr>]
     [\<lparr>oi_order_id = Some 1, oi_product_id = Some (7::nat)\<rparr>,
      \<lparr>oi_order_id = Some 2, oi_product_id = Some 7\<rparr>,
      \<lparr>oi_order_id = Some 3, oi_product_id = Some 8\<rparr>,
      \<lparr>oi_order_id = Some 2, oi_product_id = Some 8\<rparr>,
      \<lparr>oi_order_id = Some 4, oi_product_id = Some 8\<rparr>,
      \<lparr>oi_order_id = Some 4, oi_product_id = Some 7\<rparr>] (Some 20) p} = 2"
proof -
  let ?orders = "[\<lparr>o_id = Some (1::nat), o_unified_customer_id = Some (10::nat), o_order_date = Some 100\<rparr>,
      \<lparr>o_id = Some 2, o_unified_customer_id = Some 20, o_order_date = Some 100\<rparr>,
      \<lparr>o_id = Some 3, o_unified_customer_id = Some 10, o_order_date = Some 95\<rparr>,
      \<lparr>o_id = Some 4, o_unified_customer_id = Some 30, o_order_date = Some 70\<rparr>]"
  let ?items = "[\<lparr>oi_order_id = Some 1, oi_product_id = Some (7::nat)\<rparr>,
      \<lparr>oi_order_id = Some 2, oi_product_id = Some 7\<rparr>,
      \<lparr>oi_order_id = Some 3, oi_product_id = Some 8\<rparr>,
      \<lparr>oi_order_id = Some 2, oi_product_id = Some 8\<rparr>,
      \<lparr>oi_order_id = Some 4, oi_product_id = Some 8\<rparr>,
      \<lparr>oi_order_id = Some 4, oi_product_id = Some 7\<rparr>]"
  have run: "customer_pairs (customer_products 110 ?orders ?items) = [(Some 10, Some 20, 2)]"
    by (simp add: customer_pairs_def customer_products_def purchases_def shared_rows_def
          shared_products_def Let_def)
  then have "(Some 10, Some 20, 2) \<in> set (customer_pairs (customer_products 110 ?orders ?items))"
    by simp
  from customer_pairs_irreflexive_unique [OF this] run show ?thesis
    by simp
qed

section \<open>The runs of the two scripts\<close>

lemma executed_append: "executed (a @ b) = executed a @ executed b"
  by (induction a rule: executed.induct) auto

lemma connections_opened_append:
  "connections_opened (a @ b) = connections_opened a + connections_opened b"
  by (induction a rule: connections_opened.induct) auto

lemma connections_opened_none: "Connect \<notin> set t \<Longrightarrow> connections_opened t = 0"
  by (induction t rule: connections_opened.induct) auto

lemma one_at_a_time_skip:
  "Connect \<notin> set t \<Longrightarrow> ConnClose \<notin> set t \<Longrightarrow>
     one_at_a_time True (t @ r) = one_at_a_time True r"
proof (induction t)
  case Nil
  show ?case by simp
next
  case (Cons e t)
  then show ?case by (cases e) auto
qed

lemma one_at_a_time_append:
  "one_at_a_time b t \<Longrightarrow> one_at_a_time False r \<Longrightarrow> one_at_a_time b (t @ r)"
  by (induction b t rule: one_at_a_time.induct) auto

lemma table_loop_trace:
  "table_loop env ts s = (st, t) \<Longrightarrow>
     Connect \<notin> set t \<and> ConnClose \<notin> set t \<and> executed t = map Q_table_count ts"
  by (induction ts arbitrary: s st t) (auto split: sum.splits prod.splits)

lemma structure_trace:
  "validate_database_structure env = (r, t) \<Longrightarrow> Connect \<notin> set t \<and> ConnClose \<notin> set t"
  by (auto simp: validate_database_structure_def split: option.splits prod.splits
        dest: table_loop_trace)

lemma structure_ok:
  assumes "cursor_structure env = None"
  shows "\<exists>s t. validate_database_structure env = (Inr s, t) \<and>
               executed t = map Q_table_count required_tables"
proof -
  obtain s t where st: "table_loop env required_tables Map.empty = (s, t)"
    by (cases "table_loop env required_tables Map.empty") auto
  from table_loop_trace [OF st] have "executed t = map Q_table_count required_tables"
    by simp
  with assms st show ?thesis
    by (simp add: validate_database_structure_def executed_append)
qed

lemma collaborative_trace:
  "validate_collaborative_metrics env = (r, t) \<Longrightarrow> Connect \<notin> set t \<and> ConnClose \<notin> set t"
  by (auto simp: validate_collaborative_metrics_def Let_def
        split: option.splits sum.splits prod.splits)

lemma collaborative_ok:
  "cursor_collaborative env = None \<Longrightarrow>
     \<exists>m t. validate_collaborative_metrics env = (Inr m, t) \<and> executed t = [Q_collaborative]"
  by (auto simp: validate_collaborative_metrics_def Let_def
        split: option.splits sum.splits prod.splits)

lemma high_value_trace:
  "validate_high_value_pairs env = (r, t) \<Longrightarrow> Connect \<notin> set t \<and> ConnClose \<notin> set t"
  by (auto simp: validate_high_value_pairs_def Let_def split: option.splits sum.splits)

lemma high_value_ok:
  "cursor_high_value env = None \<Longrightarrow>
     \<exists>n t. validate_high_value_pairs env = (Inr n, t) \<and> executed t = [Q_high_value]"
  by (auto simp: validate_high_value_pairs_def Let_def split: option.splits sum.splits)

lemma cross_region_trace:
  "validate_cross_region_products env = (r, t) \<Longrightarrow> Connect \<notin> set t \<and> ConnClose \<notin> set t"
  by (auto simp: validate_cross_region_products_def Let_def split: option.splits sum.splits)

lemma cross_region_ok:
  "cursor_cross_region env = None \<Longrightarrow>
     \<exists>n t. validate_cross_region_products env = (Inr n, t) \<and> executed t = [Q_cross_region]"
  by (auto simp: validate_cross_region_products_def Let_def split: option.splits sum.splits)

lemma summary_trace:
  "Connect \<notin> set (summary m h c) \<and> ConnClose \<notin> set (summary m h c) \<and>
   executed (summary m h c) = []"
  by (auto simp: summary_def executed_append split: option.splits)

lemma metrics_main_try_trace:
  assumes "metrics_main_try env = (r, t)"
  shows "Connect \<notin> set t \<and> ConnClose \<notin> set t"
proof -
  obtain r1 t1 where 1: "validate_database_structure env = (r1, t1)"
    by (cases "validate_database_structure env") auto
  obtain r2 t2 where 2: "validate_collaborative_metrics env = (r2, t2)"
    by (cases "validate_collaborative_metrics env") auto
  obtain r3 t3 where 3: "validate_high_value_pairs env = (r3, t3)"
    by (cases "validate_high_value_pairs env") auto
  obtain r4 t4 where 4: "validate_cross_region_products env = (r4, t4)"
    by (cases "validate_cross_region_products env") auto
  note free = structure_trace [OF 1] collaborative_trace [OF 2] high_value_trace [OF 3]
    cross_region_trace [OF 4]
  from assms show ?thesis
    unfolding metrics_main_try_def 1 2 3 4 Let_def using free
    by (auto simp: summary_trace split: sum.splits if_splits)
qed

lemma metrics_main_try_ok:
  assumes "cursor_structure env = None" and "cursor_collaborative env = None"
    and "cursor_high_value env = None" and "cursor_cross_region env = None"
  shows "\<exists>t. metrics_main_try env = (Inr True, t) \<and>
             executed t = map Q_table_count required_tables @
                            [Q_collaborative, Q_high_value, Q_cross_region]"
proof -
  from structure_ok [OF assms(1)] obtain s t1
    where 1: "validate_database_structure env = (Inr s, t1)"
      and e1: "executed t1 = map Q_table_count required_tables" by blast
  from collaborative_ok [OF assms(2)] obtain m t2
    where 2: "validate_collaborative_metrics env = (Inr m, t2)"
      and e2: "executed t2 = [Q_collaborative]" by blast
  from high_value_ok [OF assms(3)] obtain h t3
    where 3: "validate_high_value_pairs env = (Inr h, t3)"
      and e3: "executed t3 = [Q_high_value]" by blast
  from cross_region_ok [OF assms(4)] obtain c t4
    where 4: "validate_cross_region_products env = (Inr c, t4)"
      and e4: "executed t4 = [Q_cross_region]" by blast
  show ?thesis
    unfolding metrics_main_try_def 1 2 3 4 Let_def
    by (simp add: executed_append e1 e2 e3 e4 summary_trace)
qed

lemma metrics_main_try_result:
  "fst (metrics_main_try env) = Inr b \<Longrightarrow>
     b \<and> cursor_structure env = None \<and> cursor_collaborative env = None \<and>
     cursor_high_value env = None \<and> cursor_cross_region env = None"
  by (auto simp: metrics_main_try_def validate_database_structure_def
        validate_collaborative_metrics_def validate_high_value_pairs_def
        validate_cross_region_products_def Let_def
        split: option.splits sum.splits prod.splits if_splits)

lemma city_loop_trace:
  "city_loop tot i rows = (r, t) \<Longrightarrow>
     connections_opened t = 0 \<and> executed t = [] \<and>
     (\<forall>b u. one_at_a_time b (t @ u) = one_at_a_time b u)"
  by (induction rows arbitrary: i r t) (auto simp: py_truediv_def split: if_splits prod.splits)

lemma real_city_loop_trace:
  "real_city_loop tot i rows = (r, t) \<Longrightarrow>
     connections_opened t = 0 \<and> executed t = [] \<and>
     (\<forall>b u. one_at_a_time b (t @ u) = one_at_a_time b u)"
  by (induction rows arbitrary: i r t) (auto simp: py_truediv_def split: if_splits prod.splits)

lemma customer_profiling_ok:
  "validate_customer_profiling env = (Inr m, t) \<Longrightarrow>
     connections_opened t = 1 \<and> one_at_a_time False t \<and> executed t = [Q_customer_metrics]"
  by (auto simp: validate_customer_profiling_def Let_def py_truediv_def
        split: option.splits sum.splits if_splits)

lemma geographic_ok:
  assumes "validate_geographic_distribution env = (Inr rs, t)"
  shows "connections_opened t = 1 \<and> one_at_a_time False t \<and> executed t = [Q_geographic]"
proof -
  from assms obtain results where res: "fetch_geo env = Inr results"
    by (auto simp: validate_geographic_distribution_def split: option.splits sum.splits)
  let ?tot = "sum_list (map (\<lambda>(city, customers, orders, revenue). customers) results)"
  obtain r u where ru: "city_loop ?tot 1 results = (r, u)"
    by (cases "city_loop ?tot 1 results") auto
  from assms res ru have
    t: "t = [Connect, Cursor, Execute Q_geographic] @ u @
            [Print (L_geo_summary (length results) ?tot
               (sum_list (map (\<lambda>(city, customers, orders, revenue). revenue) results))),
             CursorClose, ConnClose]"
    by (auto simp: validate_geographic_distribution_def Let_def split: option.splits)
  from city_loop_trace [OF ru] show ?thesis
    by (simp add: t connections_opened_append executed_append)
qed

lemma profiling_complete_run:
  assumes "\<not> isl (fst (compare_with_frontend env))"
  shows "connections_opened (snd (compare_with_frontend env)) = 2 \<and>
         executed (snd (compare_with_frontend env)) = [Q_customer_metrics, Q_geographic] \<and>
         (\<forall>u. one_at_a_time False u \<longrightarrow>
              one_at_a_time False (snd (compare_with_frontend env) @ u))"
proof -
  obtain r1 t1 where 1: "validate_customer_profiling env = (r1, t1)"
    by (cases "validate_customer_profiling env") auto
  obtain r2 t2 where 2: "validate_geographic_distribution env = (r2, t2)"
    by (cases "validate_geographic_distribution env") auto
  from assms 1 obtain m where m: "r1 = Inr m"
    by (cases r1) (auto simp: compare_with_frontend_def)
  from assms 1 2 m obtain cities where c: "r2 = Inr cities"
    by (cases r2) (auto simp: compare_with_frontend_def)
  let ?tot = "sum_list (map (\<lambda>(city, customers, orders, revenue). customers) cities)"
  obtain r3 t3 where 3: "real_city_loop ?tot 1 (take 5 cities) = (r3, t3)"
    by (cases "real_city_loop ?tot 1 (take 5 cities)") auto
  have trace: "snd (compare_with_frontend env) = t1 @ t2 @ t3"
    using 1 2 3 m c by (simp add: compare_with_frontend_def Let_def split: option.splits)
  note a = customer_profiling_ok [OF 1 [unfolded m]]
  note b = geographic_ok [OF 2 [unfolded c]]
  note d = real_city_loop_trace [OF 3]
  have "one_at_a_time False (t1 @ t2 @ t3 @ u)" if "one_at_a_time False u" for u
  proof -
    from d that have "one_at_a_time False (t3 @ u)" by simp
    with b have "one_at_a_time False (t2 @ t3 @ u)" by (simp add: one_at_a_time_append)
    with a show ?thesis by (simp add: one_at_a_time_append)
  qed
  with a b d show ?thesis
    by (simp add: trace connections_opened_append executed_append)
qed

text \<open>
  C9, as the code has it. validate\_metrics.py: when the connection succeeds, a run opens
  exactly one connection, every cursor and query of the run uses it while it is open, and
  closing it is the last thing the run does, whatever the queries and cursors do; when all
  cursors can be created the nine queries are sent in turn. When the connection fails, no
  connection is opened and no query is sent. validate\_customer\_profiling.py: each of the
  two metric functions opens a connection of its own, so a run in which both complete
  opens two connections, one after the other, the first closed before the second is
  opened, each used by one query.
\<close>

theorem connection_discipline:
  "(connect_db env = None \<longrightarrow>
      connections_opened (snd (metrics_script env)) = 1 \<and>
      one_at_a_time False (snd (metrics_script env)) \<and>
      last (snd (metrics_script env)) = ConnClose) \<and>
   (connect_db env = None \<and> cursor_structure env = None \<and> cursor_collaborative env = None \<and>
    cursor_high_value env = None \<and> cursor_cross_region env = None \<longrightarrow>
      executed (snd (metrics_script env)) =
        map Q_table_count required_tables @ [Q_collaborative, Q_high_value, Q_cross_region]) \<and>
   (connect_db env \<noteq> None \<longrightarrow>
      connections_opened (snd (metrics_script env)) = 0 \<and>
      executed (snd (metrics_script env)) = []) \<and>
   (\<not> isl (fst (compare_with_frontend penv)) \<longrightarrow>
      connections_opened (snd (profiling_script penv)) = 2 \<and>
      one_at_a_time False (snd (profiling_script penv)) \<and>
      executed (snd (profiling_script penv)) = [Q_customer_metrics, Q_geographic])"
proof (intro conjI impI)
  obtain r t where rt: "metrics_main_try env = (r, t)"
    by (cases "metrics_main_try env") auto
  note free = metrics_main_try_trace [OF rt]
  {
    assume c: "connect_db env = None"
    have tr: "snd (metrics_script env) =
                (case r of Inl e \<Rightarrow> [Connect] @ t @ [Print (L_validation_failed e), ConnClose]
                         | Inr b \<Rightarrow> [Connect] @ t @ [ConnClose])"
      using c rt
      by (simp add: metrics_script_def metrics_main_def metrics_get_db_connection_def
            split: sum.splits)
    show "connections_opened (snd (metrics_script env)) = 1"
      using free
      by (simp add: tr connections_opened_append connections_opened_none split: sum.splits)
    show "one_at_a_time False (snd (metrics_script env))"
      using free by (simp add: tr one_at_a_time_skip split: sum.splits)
    show "last (snd (metrics_script env)) = ConnClose"
      by (simp add: tr split: sum.splits)
  }
  {
    assume a: "connect_db env = None \<and> cursor_structure env = None \<and>
               cursor_collaborative env = None \<and> cursor_high_value env = None \<and>
               cursor_cross_region env = None"
    then have "\<exists>u. metrics_main_try env = (Inr True, u) \<and>
                 executed u = map Q_table_count required_tables @
                                [Q_collaborative, Q_high_value, Q_cross_region]"
      by (intro metrics_main_try_ok) simp_all
    then obtain u
      where u: "metrics_main_try env = (Inr True, u)"
        and eu: "executed u = map Q_table_count required_tables @
                                [Q_collaborative, Q_high_value, Q_cross_region]"
      by (elim exE conjE)
    from a u have "snd (metrics_script env) = [Connect] @ u @ [ConnClose]"
      by (simp add: metrics_script_def metrics_main_def metrics_get_db_connection_def)
    then show "executed (snd (metrics_script env)) =
        map Q_table_count required_tables @ [Q_collaborative, Q_high_value, Q_cross_region]"
      by (simp add: executed_append eu)
  }
  {
    assume "connect_db env \<noteq> None"
    then obtain e where "connect_db env = Some e" by auto
    then have tr: "snd (metrics_script env) =
                     [Print (L_connection_failed e), Print L_cannot_proceed]"
      by (simp add: metrics_script_def metrics_main_def metrics_get_db_connection_def)
    show "connections_opened (snd (metrics_script env)) = 0" by (simp add: tr)
    show "executed (snd (metrics_script env)) = []" by (simp add: tr)
  }
  {
    assume ok: "\<not> isl (fst (compare_with_frontend penv))"
    obtain rc tc where c: "compare_with_frontend penv = (rc, tc)"
      by (cases "compare_with_frontend penv") auto
    from ok c obtain v where v: "rc = Inr v" by (cases rc) auto
    have tr: "snd (profiling_script penv) =
                tc @ (case json_dump penv of
                        Some e \<Rightarrow> [Print (L_validation_failed e)]
                      | None \<Rightarrow> [JsonDump, Print L_results_saved])"
      using c v by (simp add: profiling_script_def profiling_main_def split: option.splits)
    from profiling_complete_run [OF ok] c
    have p: "connections_opened tc = 2" "executed tc = [Q_customer_metrics, Q_geographic]"
      "\<And>u. one_at_a_time False u \<Longrightarrow> one_at_a_time False (tc @ u)"
      by simp_all
    show "connections_opened (snd (profiling_script penv)) = 2"
      by (simp add: tr connections_opened_append p split: option.splits)
    show "executed (snd (profiling_script penv)) = [Q_customer_metrics, Q_geographic]"
      by (simp add: tr executed_append p split: option.splits)
    show "one_at_a_time False (snd (profiling_script penv))"
      unfolding tr by (rule p(3)) (simp split: option.splits)
  }
qed

theorem connection_discipline_witness:
  "connections_opened (snd (metrics_script
      \<lparr>connect_db = None, cursor_structure = None, fetch_table = (\<lambda>t. Inr 500),
       cursor_collaborative = None,
       fetch_collaborative = Inr (Some (Some 2, Some 2, Some 4, Some 4, Some 1, Some 2)),
       cursor_high_value = None, fetch_high_value = Inr (Some 3),
       cursor_cross_region = None, fetch_cross_region = Inr (Some 0)\<rparr>)) = 1 \<and>
   connections_opened (snd (metrics_script
      \<lparr>connect_db = Some OperationalError, cursor_structure = None,
       fetch_table = (\<lambda>t. Inr 500), cursor_collaborative = None,
       fetch_collaborative = Inr None,
       cursor_high_value = None, fetch_high_value = Inr (Some 3),
       cursor_cross_region = None, fetch_cross_region = Inr (Some 0)\<rparr>)) = 0 \<and>
   one_at_a_time False (snd (profiling_script
      \<lparr>connect_metrics = None, cursor_metrics = None,
       fetch_metrics = Inr (Some (3, 2, 600, 200)),
       connect_geo = None, cursor_geo = None,
       fetch_geo = Inr [(''Lahore'', 3, 4, 900), (''Karachi'', 1, 1, 100)],
       json_dump = None\<rparr>))"
proof -
  let ?ok = "\<lparr>connect_db = None, cursor_structure = None, fetch_table = (\<lambda>t. Inr 500),
       cursor_collaborative = None,
       fetch_collaborative = Inr (Some (Some 2, Some 2, Some 4, Some 4, Some 1, Some 2)),
       cursor_high_value = None, fetch_high_value = Inr (Some 3),
       cursor_cross_region = None, fetch_cross_region = Inr (Some 0)\<rparr>"
  let ?down = "\<lparr>connect_db = Some OperationalError, cursor_structure = None,
       fetch_table = (\<lambda>t. Inr 500), cursor_collaborative = None,
       fetch_collaborative = Inr None,
       cursor_high_value = None, fetch_high_value = Inr (Some 3),
       cursor_cross_region = None, fetch_cross_region = Inr (Some 0)\<rparr>"
  let ?p = "\<lparr>connect_metrics = None, cursor_metrics = None,
       fetch_metrics = Inr (Some (3, 2, 600, 200)),
       connect_geo = None, cursor_geo = None,
       fetch_geo = Inr [(''Lahore'', 3, 4, 900), (''Karachi'', 1, 1, 100)],
       json_dump = None\<rparr>"
  have complete: "\<not> isl (fst (compare_with_frontend ?p))"
    by (simp add: compare_with_frontend_def validate_customer_profiling_def
          validate_geographic_distribution_def py_truediv_def)
  from connection_discipline [of ?ok ?p] connection_discipline [of ?down ?p] complete
  show ?thesis by simp
qed

text \<open>
  The claim as stated fails on a complete run of validate\_customer\_profiling.py: two
  connections are opened, not one.
\<close>

theorem single_connection_counterexample:
  "connections_opened (snd (profiling_script
      \<lparr>connect_metrics = None, cursor_metrics = None,
       fetch_metrics = Inr (Some (3, 2, 600, 200)),
       connect_geo = None, cursor_geo = None,
       fetch_geo = Inr [(''Lahore'', 3, 4, 900), (''Karachi'', 1, 1, 100)],
       json_dump = None\<rparr>)) = 2"
  by (simp add: profiling_script_def profiling_main_def compare_with_frontend_def
        validate_customer_profiling_def validate_geographic_distribution_def py_truediv_def)

text \<open>
  C3, as the code has it. validate\_metrics.py exits with status 0 exactly when the
  connection is established and no exception reaches \<open>main\<close> (here: every cursor can be
  created; a failed query never reaches \<open>main\<close>), and with status 1 otherwise, in
  particular when the connection fails. validate\_customer\_profiling.py has no exit
  status of its own: \<open>main\<close> catches every \<open>Exception\<close>, a failed connection included,
  prints it and returns, so the process exits with status 0.
\<close>

theorem exit_status:
  "fst (metrics_script env) =
     (if connect_db env = None \<and> cursor_structure env = None \<and>
         cursor_collaborative env = None \<and> cursor_high_value env = None \<and>
         cursor_cross_region env = None
      then 0 else 1) \<and>
   fst (profiling_script penv) = 0"
proof
  show "fst (profiling_script penv) = 0"
    by (simp add: profiling_script_def profiling_main_def
          split: prod.splits sum.splits option.splits)
  show "fst (metrics_script env) =
     (if connect_db env = None \<and> cursor_structure env = None \<and>
         cursor_collaborative env = None \<and> cursor_high_value env = None \<and>
         cursor_cross_region env = None
      then 0 else 1)"
  proof (cases "connect_db env")
    case (Some e)
    then show ?thesis
      by (simp add: metrics_script_def metrics_main_def metrics_get_db_connection_def)
  next
    case None
    obtain r t where rt: "metrics_main_try env = (r, t)"
      by (cases "metrics_main_try env") auto
    have exit: "fst (metrics_script env) = (if r = Inr True then 0 else 1)"
      using None rt
      by (auto simp: metrics_script_def metrics_main_def metrics_get_db_connection_def
            split: sum.splits)
    show ?thesis
    proof (cases "cursor_structure env = None \<and> cursor_collaborative env = None \<and>
                  cursor_high_value env = None \<and> cursor_cross_region env = None")
      case True
      then have "\<exists>u. metrics_main_try env = (Inr True, u) \<and>
                   executed u = map Q_table_count required_tables @
                                  [Q_collaborative, Q_high_value, Q_cross_region]"
        by (intro metrics_main_try_ok) simp_all
      with rt have "r = Inr True" by auto
      with None True exit show ?thesis by simp
    next
      case False
      have "r \<noteq> Inr True"
      proof
        assume "r = Inr True"
        with rt have "fst (metrics_main_try env) = Inr True" by simp
        from metrics_main_try_result [OF this] False show False by simp
      qed
      with None False exit show ?thesis by auto
    qed
  qed
qed

text \<open>
  The claim as stated fails when validate\_customer\_profiling.py cannot connect: the
  failure is printed and the exit status is 0.
\<close>

theorem connection_failure_exit_counterexample:
  "profiling_script
      \<lparr>connect_metrics = Some OperationalError, cursor_metrics = None,
       fetch_metrics = Inr (Some (3, 2, 600, 200)),
       connect_geo = Some OperationalError, cursor_geo = None, fetch_geo = Inr [],
       json_dump = None\<rparr>
   = (0, [Print (L_validation_failed OperationalError)])"
  by (simp add: profiling_script_def profiling_main_def compare_with_frontend_def
        validate_customer_profiling_def)

text \<open>
  C2, as the code has it. In validate\_metrics.py each of
  \<open>validate_collaborative_metrics\<close>, \<open>validate_high_value_pairs\<close> and
  \<open>validate_cross_region_products\<close> catches a failure of its query, prints it and
  returns its default (\<open>None\<close>, 0 and 0); the run goes on, all nine queries are sent and
  the script exits with status 0. In validate\_customer\_profiling.py the two metric
  functions have no handler: a failure of the query leaves the function as an exception,
  which \<open>main\<close> catches and prints as the last line of the run; when the customer-metrics
  query fails the geographic query is never sent.
\<close>

theorem query_failure_handling:
  "(connect_db env = None \<and> cursor_structure env = None \<and> cursor_collaborative env = None \<and>
    cursor_high_value env = None \<and> cursor_cross_region env = None \<longrightarrow>
      (fetch_collaborative env = Inl e1 \<longrightarrow>
         validate_collaborative_metrics env =
           (Inr None, [Cursor, Execute Q_collaborative, Print (L_query_failed e1), CursorClose])) \<and>
      (fetch_high_value env = Inl e2 \<longrightarrow>
         validate_high_value_pairs env =
           (Inr 0, [Cursor, Execute Q_high_value, Print (L_high_value_failed e2), CursorClose])) \<and>
      (fetch_cross_region env = Inl e3 \<longrightarrow>
         validate_cross_region_products env =
           (Inr 0, [Cursor, Execute Q_cross_region, Print (L_cross_region_failed e3),
                    CursorClose])) \<and>
      executed (snd (metrics_script env)) =
        map Q_table_count required_tables @ [Q_collaborative, Q_high_value, Q_cross_region] \<and>
      fst (metrics_script env) = 0) \<and>
   (connect_metrics penv = None \<and> cursor_metrics penv = None \<and> fetch_metrics penv = Inl e4 \<longrightarrow>
      fst (validate_customer_profiling penv) = Inl e4 \<and>
      executed (snd (profiling_script penv)) = [Q_customer_metrics] \<and>
      last (snd (profiling_script penv)) = Print (L_validation_failed e4)) \<and>
   (connect_geo penv = None \<and> cursor_geo penv = None \<and> fetch_geo penv = Inl e5 \<longrightarrow>
      fst (validate_geographic_distribution penv) = Inl e5)"
proof (intro conjI impI)
  {
    assume a: "connect_db env = None \<and> cursor_structure env = None \<and>
               cursor_collaborative env = None \<and> cursor_high_value env = None \<and>
               cursor_cross_region env = None"
    {
      assume "fetch_collaborative env = Inl e1"
      with a show "validate_collaborative_metrics env =
           (Inr None, [Cursor, Execute Q_collaborative, Print (L_query_failed e1), CursorClose])"
        by (simp add: validate_collaborative_metrics_def)
    }
    {
      assume "fetch_high_value env = Inl e2"
      with a show "validate_high_value_pairs env =
           (Inr 0, [Cursor, Execute Q_high_value, Print (L_high_value_failed e2), CursorClose])"
        by (simp add: validate_high_value_pairs_def)
    }
    {
      assume "fetch_cross_region env = Inl e3"
      with a show "validate_cross_region_products env =
           (Inr 0, [Cursor, Execute Q_cross_region, Print (L_cross_region_failed e3),
                    CursorClose])"
        by (simp add: validate_cross_region_products_def)
    }
    from a have "\<exists>u. metrics_main_try env = (Inr True, u) \<and>
                 executed u = map Q_table_count required_tables @
                                [Q_collaborative, Q_high_value, Q_cross_region]"
      by (intro metrics_main_try_ok) simp_all
    then obtain u
      where u: "metrics_main_try env = (Inr True, u)"
        and eu: "executed u = map Q_table_count required_tables @
                                [Q_collaborative, Q_high_value, Q_cross_region]"
      by (elim exE conjE)
    from a u have run: "metrics_script env = (0, [Connect] @ u @ [ConnClose])"
      by (simp add: metrics_script_def metrics_main_def metrics_get_db_connection_def)
    show "executed (snd (metrics_script env)) =
        map Q_table_count required_tables @ [Q_collaborative, Q_high_value, Q_cross_region]"
      by (simp add: run executed_append eu)
    show "fst (metrics_script env) = 0"
      by (simp add: run)
  }
  {
    assume b: "connect_metrics penv = None \<and> cursor_metrics penv = None \<and>
               fetch_metrics penv = Inl e4"
    then have v: "validate_customer_profiling penv =
                    (Inl e4, [Connect, Cursor, Execute Q_customer_metrics])"
      by (simp add: validate_customer_profiling_def)
    then have run: "snd (profiling_script penv) =
                      [Connect, Cursor, Execute Q_customer_metrics, Print (L_validation_failed e4)]"
      by (simp add: profiling_script_def profiling_main_def compare_with_frontend_def)
    show "fst (validate_customer_profiling penv) = Inl e4" by (simp add: v)
    show "executed (snd (profiling_script penv)) = [Q_customer_metrics]" by (simp add: run)
    show "last (snd (profiling_script penv)) = Print (L_validation_failed e4)"
      by (simp add: run)
  }
  {
    assume "connect_geo penv = None \<and> cursor_geo penv = None \<and> fetch_geo penv = Inl e5"
    then show "fst (validate_geographic_distribution penv) = Inl e5"
      by (simp add: validate_geographic_distribution_def)
  }
qed

theorem query_failure_handling_witness:
  "fst (metrics_script
      \<lparr>connect_db = None, cursor_structure = None,
       fetch_table = (\<lambda>t. Inl ProgrammingError), cursor_collaborative = None,
       fetch_collaborative = Inl ProgrammingError,
       cursor_high_value = None, fetch_high_value = Inl ProgrammingError,
       cursor_cross_region = None, fetch_cross_region = Inl ProgrammingError\<rparr>) = 0 \<and>
   executed (snd (profiling_script
      \<lparr>connect_metrics = None, cursor_metrics = None, fetch_metrics = Inl ProgrammingError,
       connect_geo = None, cursor_geo = None, fetch_geo = Inl ProgrammingError,
       json_dump = None\<rparr>)) = [Q_customer_metrics]"
  using query_failure_handling
          [of "\<lparr>connect_db = None, cursor_structure = None,
                 fetch_table = (\<lambda>t. Inl ProgrammingError), cursor_collaborative = None,
                 fetch_collaborative = Inl ProgrammingError,
                 cursor_high_value = None, fetch_high_value = Inl ProgrammingError,
                 cursor_cross_region = None, fetch_cross_region = Inl ProgrammingError\<rparr>"
              ProgrammingError ProgrammingError ProgrammingError
              "\<lparr>connect_metrics = None, cursor_metrics = None,
                 fetch_metrics = Inl ProgrammingError,
                 connect_geo = None, cursor_geo = None, fetch_geo = Inl ProgrammingError,
                 json_dump = None\<rparr>"
              ProgrammingError ProgrammingError]
  by simp

text \<open>
  The claim as stated fails on \<open>validate_customer_profiling\<close>: a failing query is not
  turned into a default value, the exception leaves the function, and the geographic
  metric of the same run is not computed.
\<close>

theorem uncaught_query_failure_counterexample:
  "fst (validate_customer_profiling
      \<lparr>connect_metrics = None, cursor_metrics = None, fetch_metrics = Inl ProgrammingError,
       connect_geo = None, cursor_geo = None,
       fetch_geo = Inr [(''Lahore'', 3, 4, 900)], json_dump = None\<rparr>)
     = Inl ProgrammingError \<and>
   executed (snd (profiling_script
      \<lparr>connect_metrics = None, cursor_metrics = None, fetch_metrics = Inl ProgrammingError,
       connect_geo = None, cursor_geo = None,
       fetch_geo = Inr [(''Lahore'', 3, 4, 900)], json_dump = None\<rparr>))
     = [Q_customer_metrics]"
  by (simp add: profiling_script_def profiling_main_def compare_with_frontend_def
        validate_customer_profiling_def)

end
